theory Spec2Isabelle
  imports Main
begin

section \<open>Go values used by the client package\<close>

text \<open>
  A Go string is a sequence of bytes, and so is a HOL \<open>string\<close> (a list of 8-bit
  characters). A byte slice (\<open>[]byte\<close>) is modelled by the same type, so the
  conversion \<open>string(msg.Data)\<close> is the identity.
\<close>

type_synonym bytes = string

text \<open>A Go \<open>error\<close> value; \<open>nil\<close> is \<open>None\<close> of \<open>go_error option\<close>.\<close>

datatype go_error = Error (message: string)

definition errors_New :: "string \<Rightarrow> go_error" where
  "errors_New text = Error text"

text \<open>
  \<open>time.Time\<close>: seconds and nanoseconds since the zero instant (January 1, year 1,
  00:00:00 UTC). \<open>IsZero\<close> reports whether both are zero.
\<close>

datatype time_Time = Instant (sec: int) (nsec: int)

definition IsZero :: "time_Time \<Rightarrow> bool" where
  "IsZero t = (sec t = 0 \<and> nsec t = 0)"

text \<open>\<open>time.Second\<close>, a \<open>time.Duration\<close> in nanoseconds.\<close>

definition Second :: int where
  "Second = 1000000000"

section \<open>Points (package data)\<close>

text \<open>
  Modelled from the spec: the \<open>Point\<close> struct (data/point.go is not among the
  sources). \<open>Value\<close> is a \<open>float64\<close>; the code under study only copies it, so its
  type is the parameter \<open>'f\<close>.
\<close>

record 'f Point =
  Type :: string
  Key :: string
  Value :: 'f
  Text :: string
  Time :: time_Time

type_synonym 'f Points = "'f Point list"

section \<open>Subjects (client/subject.go)\<close>

text \<open>\<open>fmt.Sprintf\<close> with \<open>%v\<close> on a string argument inserts the string itself.\<close>

definition SubjectNodePoints :: "string \<Rightarrow> string" where
  "SubjectNodePoints nodeID = ''node.'' @ nodeID @ ''.points''"

definition SubjectEdgePoints :: "string \<Rightarrow> string \<Rightarrow> string" where
  "SubjectEdgePoints nodeID parentID = ''node.'' @ nodeID @ ''.'' @ parentID @ ''.points''"

definition SubjectNodeAllPoints :: string where
  "SubjectNodeAllPoints = ''node.*.points''"

definition SubjectEdgeAllPoints :: string where
  "SubjectEdgeAllPoints = ''node.*.*.points''"

definition SubjectNodeHRPoints :: "string \<Rightarrow> string" where
  "SubjectNodeHRPoints nodeID = ''phr.'' @ nodeID"

section \<open>Sending points (client/point.go)\<close>

text \<open>
  The bus connection \<open>*nats.Conn\<close>, as far as \<open>SendPoints\<close> uses it: \<open>Request\<close>
  takes subject, payload and timeout and returns an error or the reply; \<open>Publish\<close>
  returns an error or nil.
\<close>

record Msg =
  Data :: bytes

record Conn =
  Request :: "string \<Rightarrow> bytes \<Rightarrow> int \<Rightarrow> go_error + Msg"
  Publish :: "string \<Rightarrow> bytes \<Rightarrow> go_error option"

text \<open>What a call puts on the bus.\<close>

datatype bus_op = OpRequest string bytes int | OpPublish string bytes

text \<open>
  The stamping loop of \<open>SendPoints\<close>. \<open>time.Now()\<close> is called once for each point
  with a zero time; \<open>now k\<close> is the clock's k-th reading during the call.
\<close>

fun stamp :: "(nat \<Rightarrow> time_Time) \<Rightarrow> nat \<Rightarrow> 'f Points \<Rightarrow> 'f Points" where
  "stamp now k [] = []"
| "stamp now k (p # ps) =
     (if IsZero (Time p) then p\<lparr>Time := now k\<rparr> # stamp now (Suc k) ps
      else p # stamp now k ps)"

text \<open>
  \<open>SendPoints\<close> returns its error (or nil) and, for the model, what it put on the
  bus. \<open>ToPb\<close>, the serialisation of a batch, is not among the sources and is a
  parameter.
\<close>

definition SendPoints ::
  "(nat \<Rightarrow> time_Time) \<Rightarrow> ('f Points \<Rightarrow> go_error + bytes) \<Rightarrow> Conn \<Rightarrow> string \<Rightarrow> 'f Points \<Rightarrow> bool
     \<Rightarrow> go_error option \<times> bus_op list" where
  "SendPoints now ToPb nc subject points ack =
     (case ToPb (stamp now 0 points) of
        Inl err \<Rightarrow> (Some err, [])
      | Inr data \<Rightarrow>
          if ack then
            (case Request nc subject data Second of
               Inl err \<Rightarrow> (Some err, [OpRequest subject data Second])
             | Inr msg \<Rightarrow>
                 if length (Data msg) > 0
                 then (Some (errors_New (Data msg)), [OpRequest subject data Second])
                 else (None, [OpRequest subject data Second]))
          else
            (case Publish nc subject data of
               Some err \<Rightarrow> (Some err, [OpPublish subject data])
             | None \<Rightarrow> (None, [OpPublish subject data])))"

definition SendNodePoints ::
  "(nat \<Rightarrow> time_Time) \<Rightarrow> ('f Points \<Rightarrow> go_error + bytes) \<Rightarrow> Conn \<Rightarrow> string \<Rightarrow> 'f Points \<Rightarrow> bool
     \<Rightarrow> go_error option \<times> bus_op list" where
  "SendNodePoints now ToPb nc nodeID points ack =
     SendPoints now ToPb nc (SubjectNodePoints nodeID) points ack"

definition SendEdgePoints ::
  "(nat \<Rightarrow> time_Time) \<Rightarrow> ('f Points \<Rightarrow> go_error + bytes) \<Rightarrow> Conn \<Rightarrow> string \<Rightarrow> string
     \<Rightarrow> 'f Points \<Rightarrow> bool \<Rightarrow> go_error option \<times> bus_op list" where
  "SendEdgePoints now ToPb nc nodeID parentID points ack =
     (let parentID = (if parentID = '''' then ''none'' else parentID)
      in SendPoints now ToPb nc (SubjectEdgePoints nodeID parentID) points ack)"

section \<open>The client manager (client/manager.go)\<close>

subsection \<open>Deriving the node type in \<open>NewManager\<close>\<close>

text \<open>
  The type argument \<open>T\<close> as reflection sees it: whether it is an interface type, and
  the name \<open>reflect.Type.Name\<close> reports (empty for an unnamed type such as an
  anonymous struct or a pointer type).
\<close>

datatype go_type = GoType (isInterface: bool) (typeName: string)

datatype panic = NilPointerDereference | SliceBoundsOutOfRange

text \<open>
  \<open>var x T; reflect.TypeOf(x)\<close>: the zero value of an interface type is the nil
  interface, for which \<open>reflect.TypeOf\<close> returns nil; for every other type it
  returns the type.
\<close>

definition reflect_TypeOf_zero :: "go_type \<Rightarrow> go_type option" where
  "reflect_TypeOf_zero T = (if isInterface T then None else Some T)"

definition isASCII :: "char \<Rightarrow> bool" where
  "isASCII c = (of_char c < (128::nat))"

definition isUpper :: "char \<Rightarrow> bool" where
  "isUpper c = ((65::nat) \<le> of_char c \<and> of_char c \<le> (90::nat))"

definition asciiLower :: "char \<Rightarrow> char" where
  "asciiLower c = (if isUpper c then char_of (of_char c + (32::nat)) else c)"

text \<open>
  \<open>strings.ToLower\<close> on the one-byte string \<open>s[0:1]\<close> that holds the byte \<open>c\<close>,
  the only strings \<open>NewManager\<close> passes to it. An ASCII byte is lower-cased. A byte
  from 0x80 on is not valid UTF-8 on its own: \<open>ToLower\<close> then maps the string rune
  by rune, and the lone byte decodes to U+FFFD, which is written back in UTF-8
  (EF BF BD).
\<close>

definition ToLower_1byte :: "char \<Rightarrow> string" where
  "ToLower_1byte c =
     (if isASCII c then [asciiLower c]
      else [CHR 0xEF, CHR 0xBF, CHR 0xBD])"

subsection \<open>Manager state\<close>

text \<open>
  Modelled from the spec: the running-instance handle \<open>clientState\<close> with
  \<open>newClientState\<close> and \<open>stop\<close> (client/client-state.go is not among the sources).
  The handle is bound to one node (\<open>'n\<close> is the node type returned by the store);
  \<open>stop(err)\<close> signals the instance to stop, with an optional error. The model
  records every call of \<open>stop\<close> on the handle with its argument, oldest first; what
  the instance does when it is called is not modelled.
\<close>

record 'n clientState =
  node :: 'n
  stops :: "go_error option list"

definition newClientState :: "'n \<Rightarrow> 'n clientState" where
  "newClientState n = \<lparr>node = n, stops = []\<rparr>"

definition stop :: "'n clientState \<Rightarrow> go_error option \<Rightarrow> 'n clientState" where
  "stop c err = c\<lparr>stops := stops c @ [err]\<rparr>"

text \<open>A call of \<open>GetNodeChildren\<close>: root, node type, includeDel, recursive.\<close>

type_synonym query = "string \<times> string \<times> bool \<times> bool"

text \<open>
  The \<open>Manager\<close> struct. The channels are the events of the loop below, and the
  connection and the constructor are only handed on to code that is not among the
  sources. \<open>upSub\<close> tells whether the subscription is active. Two fields record
  effects: \<open>queries\<close> is the list of \<open>GetNodeChildren\<close> calls made so far, and
  \<open>started\<close> the keys for which \<open>scan\<close> has spawned a goroutine running
  \<open>cs.start()\<close>.
\<close>

record 'n Manager =
  root :: string
  nodeType :: string
  clientStates :: "string \<rightharpoonup> 'n clientState"
  upSub :: bool
  queries :: "query list"
  started :: "string list"

text \<open>
  \<open>NewManager\<close>: the derivation of the node type panics where the Go code does
  (a method call on the nil \<open>reflect.Type\<close>, a slice beyond the end of the name).
\<close>

definition NewManager :: "go_type \<Rightarrow> string \<Rightarrow> panic + 'n Manager" where
  "NewManager T root' =
     (case reflect_TypeOf_zero T of
        None \<Rightarrow> Inl NilPointerDereference
      | Some t \<Rightarrow>
          (let nodeType = typeName t in
           if length nodeType < 1 then Inl SliceBoundsOutOfRange
           else
             (let nodeType = ToLower_1byte (hd (take 1 nodeType)) @ drop 1 nodeType in
              Inr \<lparr>root = root', nodeType = nodeType, clientStates = Map.empty,
                   upSub = False, queries = [], started = []\<rparr>)))"

subsection \<open>\<open>scan\<close>\<close>

text \<open>
  What \<open>scan\<close> calls and is not among the sources: \<open>GetNodeChildren\<close>, whose
  answer may differ from one call to the next (its first argument is the number of
  calls made before), and \<open>mapKey\<close>, the registration key of a node.
\<close>

record 'n world =
  GetNodeChildren :: "nat \<Rightarrow> string \<Rightarrow> string \<Rightarrow> bool \<Rightarrow> bool \<Rightarrow> go_error + 'n list"
  mapKey :: "'n \<Rightarrow> string"

text \<open>The first loop of \<open>scan\<close>: create new nodes.\<close>

fun scan_create ::
  "'n world \<Rightarrow> 'n list \<Rightarrow> (string \<rightharpoonup> bool) \<Rightarrow> 'n Manager \<Rightarrow> (string \<rightharpoonup> bool) \<times> 'n Manager" where
  "scan_create w [] found m = (found, m)"
| "scan_create w (n # children) found m =
     (let key = mapKey w n;
          found = found(key \<mapsto> True)
      in case clientStates m key of
           Some _ \<Rightarrow> scan_create w children found m
         | None \<Rightarrow>
             (let cs = newClientState n
              in scan_create w children found
                   (m\<lparr>clientStates := (clientStates m)(key \<mapsto> cs),
                      started := started m @ [key]\<rparr>)))"

text \<open>
  The second loop of \<open>scan\<close>: every registered client whose key was not found is
  told to stop, with a nil error. Nothing is deleted from the map here.
\<close>

definition scan_remove :: "(string \<rightharpoonup> bool) \<Rightarrow> 'n Manager \<Rightarrow> 'n Manager" where
  "scan_remove found m =
     m\<lparr>clientStates :=
         (\<lambda>key. case clientStates m key of
                  None \<Rightarrow> None
                | Some client \<Rightarrow>
                    (case found key of
                       Some _ \<Rightarrow> Some client
                     | None \<Rightarrow> Some (stop client None)))\<rparr>"

definition scan :: "'n world \<Rightarrow> 'n Manager \<Rightarrow> go_error option \<times> 'n Manager" where
  "scan w m =
     (let m1 = m\<lparr>queries := queries m @ [(root m, nodeType m, False, False)]\<rparr>
      in case GetNodeChildren w (length (queries m)) (root m) (nodeType m) False False of
           Inl err \<Rightarrow> (Some err, m1)
         | Inr children \<Rightarrow>
             if int (length children) < 0 then (None, m1)
             else
               (let (found, m2) = scan_create w children Map.empty m1
                in (None, scan_remove found m2)))"

subsection \<open>\<open>Start\<close>: subscription callback and event loop\<close>

text \<open>
  The callback of the subscription to \<open>up.none.>\<close>: one send on \<open>chScan\<close> for each
  decoded point whose type is \<open>PointTypeNodeType\<close>. \<open>PbDecodePoints\<close> and the
  constant are not among the sources and are parameters. The channel is unbuffered,
  so each send is one receive of the event loop.
\<close>

datatype 'n event =
    RecvStop
  | RecvAction "'n Manager \<Rightarrow> 'n Manager"
  | TimeAfterMinute
  | RecvScan
  | RecvDeleteCS string
  | ShutdownTimer



text \<open>
  The local state of \<open>Start\<close> around the manager: its variable \<open>err\<close>, the flag
  \<open>stopping\<close>, whether the shutdown timer is armed, and whether the loop has been
  left (\<open>break done\<close>).
\<close>

record 'n loop =
  mgr :: "'n Manager"
  err :: "go_error option"
  stopping :: bool
  timerArmed :: bool
  exited :: bool

definition upSubject :: string where
  "upSubject = ''up.none.>''"

text \<open>
  \<open>Start\<close> up to the loop: subscribe (an error is returned at once), then the first
  scan, whose result is assigned to \<open>err\<close>.
\<close>

definition Start_init ::
  "(string \<Rightarrow> go_error option) \<Rightarrow> 'n world \<Rightarrow> 'n Manager \<Rightarrow> go_error + 'n loop" where
  "Start_init Subscribe w m =
     (case Subscribe upSubject of
        Some e \<Rightarrow> Inl e
      | None \<Rightarrow>
          (let (e, m') = scan w (m\<lparr>upSub := True\<rparr>)
           in Inr \<lparr>mgr = m', err = e, stopping = False, timerArmed = False,
                   exited = False\<rparr>))"

text \<open>The closure \<open>scan\<close> of \<open>Start\<close>; its own \<open>err\<close> is local and only logged.\<close>

definition loop_scan :: "'n world \<Rightarrow> 'n loop \<Rightarrow> 'n loop" where
  "loop_scan w s =
     (if stopping s then s
      else (let (e, m') = scan w (mgr s) in s\<lparr>mgr := m'\<rparr>))"

text \<open>
  One round of the \<open>select\<close>. \<open>len(m.clientStates) > 0\<close> is that the map is not
  empty. An event on a loop that has been left, and the timer's event while the
  timer is not armed, do not happen: the state stays as it is.
\<close>

definition step :: "'n world \<Rightarrow> 'n loop \<Rightarrow> 'n event \<Rightarrow> 'n loop" where
  "step w s ev =
     (if exited s then s
      else case ev of
        RecvStop \<Rightarrow>
          (let s1 = s\<lparr>stopping := True, mgr := (mgr s)\<lparr>upSub := False\<rparr>\<rparr>
           in if clientStates (mgr s) \<noteq> Map.empty then
                s1\<lparr>mgr := (mgr s1)\<lparr>clientStates :=
                        (\<lambda>key. case clientStates (mgr s) key of
                                 None \<Rightarrow> None
                               | Some c \<Rightarrow> Some (stop c (err s)))\<rparr>,
                    timerArmed := True\<rparr>
              else s1\<lparr>exited := True\<rparr>)
      | RecvAction f \<Rightarrow> s\<lparr>mgr := f (mgr s)\<rparr>
      | TimeAfterMinute \<Rightarrow> loop_scan w s
      | RecvScan \<Rightarrow> loop_scan w s
      | RecvDeleteCS key \<Rightarrow>
          (let s1 = s\<lparr>mgr := (mgr s)\<lparr>clientStates := (clientStates (mgr s))(key := None)\<rparr>\<rparr>
           in if stopping s1 then
                (if clientStates (mgr s1) = Map.empty then s1\<lparr>exited := True\<rparr> else s1)
              else loop_scan w s1)
      | ShutdownTimer \<Rightarrow> (if timerArmed s then s\<lparr>exited := True\<rparr> else s))"

definition run :: "'n world \<Rightarrow> 'n loop \<Rightarrow> 'n event list \<Rightarrow> 'n loop" where
  "run w s evs = foldl (step w) s evs"

text \<open>
  \<open>Stop(err)\<close> sends on the unbuffered channel \<open>m.stop\<close>, whose only receiver is
  the loop of \<open>Start\<close>: the call returns once the loop has taken the message, and
  never when the loop has been left. Its argument is not used.
\<close>

datatype 'n stop_result = Returns "'n loop" | BlocksForever

definition Stop :: "'n world \<Rightarrow> go_error option \<Rightarrow> 'n loop \<Rightarrow> 'n stop_result" where
  "Stop w e s = (if exited s then BlocksForever else Returns (step w s RecvStop))"

subsection \<open>The goroutines around the loop\<close>



text \<open>
  The cases of the \<open>select\<close> whose body calls the closure \<open>scan\<close>, which calls
  \<open>m.scan()\<close> unless the manager is stopping; what such a case does before the
  call (only the case of \<open>chDeleteCS\<close> does something: it deletes the key); and the
  messages that are received from \<open>chScan\<close>.
\<close>

fun calls_scan :: "'n event \<Rightarrow> bool" where
  "calls_scan TimeAfterMinute = True"
| "calls_scan RecvScan = True"
| "calls_scan (RecvDeleteCS key) = True"
| "calls_scan RecvStop = False"
| "calls_scan (RecvAction f) = False"
| "calls_scan ShutdownTimer = False"

fun before_scan :: "'n loop \<Rightarrow> 'n event \<Rightarrow> 'n loop" where
  "before_scan s (RecvDeleteCS key) =
     s\<lparr>mgr := (mgr s)\<lparr>clientStates := (clientStates (mgr s))(key := None)\<rparr>\<rparr>"
| "before_scan s ev = s"





section \<open>Example inputs\<close>

text \<open>
  A store with one child \<open>b1\<close> of the monitored type at the first query and none
  afterwards; nodes are given by their id, and the registration key joins parent and
  child id. The manager is the one \<open>NewManager\<close> returns for a configuration type
  \<open>Bus\<close> under \<open>root\<close>.
\<close>

definition ex_world :: "string world" where
  "ex_world = \<lparr>GetNodeChildren = (\<lambda>k r t d rec. if k = 0 then Inr [''b1''] else Inr []),
               mapKey = (\<lambda>n. ''root-'' @ n)\<rparr>"

definition ex_m0 :: "string Manager" where
  "ex_m0 = \<lparr>root = ''root'', nodeType = ''bus'', clientStates = Map.empty, upSub = False,
            queries = [], started = []\<rparr>"

definition ex_m1 :: "string Manager" where
  "ex_m1 = snd (scan ex_world ex_m0)"

text \<open>A clock, a batch with one zero-time point, a serialiser and two connections.\<close>

definition ex_now :: "nat \<Rightarrow> time_Time" where
  "ex_now k = Instant (1700000000 + int k) 0"

definition ex_points :: "int Points" where
  "ex_points =
     [\<lparr>Type = ''value'', Key = '''', Value = 3, Text = '''', Time = Instant 0 0\<rparr>,
      \<lparr>Type = ''description'', Key = '''', Value = 0, Text = ''pump'', Time = Instant 42 7\<rparr>]"

definition ex_ToPb :: "int Points \<Rightarrow> go_error + bytes" where
  "ex_ToPb ps = Inr (concat (map Type ps))"

definition ex_conn_down :: Conn where
  "ex_conn_down = \<lparr>Request = (\<lambda>subject data timeout. Inl (Error ''nats: timeout'')),
                   Publish = (\<lambda>subject data. Some (Error ''nats: connection closed''))\<rparr>"

definition ex_conn_up :: Conn where
  "ex_conn_up = \<lparr>Request = (\<lambda>subject data timeout. Inr \<lparr>Data = ''''\<rparr>),
                 Publish = (\<lambda>subject data. None)\<rparr>"

text \<open>
  The loop \<open>Start\<close> enters for the example manager (the subscription succeeds, the
  first scan finds \<open>b1\<close>), the same loop after the instance of \<open>b1\<close> has ended and
  the rescan found nothing, a decoder that yields one node-type point for every
  message, and a configuration type whose name begins with a two-byte letter
  (U+00DC, C3 9C in UTF-8).
\<close>

definition ex_Subscribe :: "string \<Rightarrow> go_error option" where
  "ex_Subscribe subject = None"

definition ex_loop :: "string loop" where
  "ex_loop = \<lparr>mgr = snd (scan ex_world (ex_m0\<lparr>upSub := True\<rparr>)), err = None, stopping = False,
              timerArmed = False, exited = False\<rparr>"

definition ex_idle :: "string loop" where
  "ex_idle = step ex_world ex_loop (RecvDeleteCS ''root-b1'')"


definition ex_umlaut :: go_type where
  "ex_umlaut = GoType False (CHR 0xC3 # CHR 0x9C # ''nit'')"



section \<open>Subjects\<close>

text \<open>
  Claim C9. The subject functions build exactly the strings of the protocol:
  \<open>node.<n>.points\<close> for the points of node n, \<open>node.<n>.<p>.points\<close> for the points
  of the edge from p to n, the two wildcard subjects, \<open>phr.<n>\<close> for high-rate
  points, and \<open>SendEdgePoints\<close> with an empty parent id sends on
  \<open>node.<n>.none.points\<close>. The manager subscribes to \<open>up.none.>\<close>.
\<close>

theorem C9_subjects:
  "SubjectNodePoints n = ''node.'' @ n @ ''.points''
   \<and> SubjectEdgePoints n p = ''node.'' @ n @ ''.'' @ p @ ''.points''
   \<and> SubjectNodeAllPoints = ''node.*.points''
   \<and> SubjectEdgeAllPoints = ''node.*.*.points''
   \<and> SubjectNodeHRPoints n = ''phr.'' @ n
   \<and> SendEdgePoints now ToPb nc n '''' ps ack
       = SendPoints now ToPb nc (''node.'' @ n @ ''.none.points'') ps ack
   \<and> upSubject = ''up.none.>''"
  by (simp add: SubjectNodePoints_def SubjectEdgePoints_def SubjectNodeAllPoints_def
      SubjectEdgeAllPoints_def SubjectNodeHRPoints_def SendEdgePoints_def upSubject_def)

theorem C9_subjects_witness:
  "SubjectNodePoints ''b1'' = ''node.b1.points''
   \<and> SubjectEdgePoints ''b1'' ''root'' = ''node.b1.root.points''
   \<and> SubjectNodeHRPoints ''b1'' = ''phr.b1''
   \<and> snd (SendEdgePoints ex_now ex_ToPb ex_conn_up ''b1'' '''' ex_points False)
       = [OpPublish ''node.b1.none.points'' ''valuedescription'']"
  using C9_subjects [of "''b1''" "''root''" ex_now ex_ToPb ex_conn_up ex_points False]
  by (simp add: SendPoints_def ex_points_def ex_ToPb_def ex_conn_up_def IsZero_def)

section \<open>Sending points\<close>

lemma stamp_length: "length (stamp now k ps) = length ps"
  by (induction ps arbitrary: k) auto

lemma stamp_nth:
  "i < length ps \<Longrightarrow>
   stamp now k ps ! i =
     (if IsZero (Time (ps ! i))
      then (ps ! i)\<lparr>Time := now (k + length (filter (\<lambda>p. IsZero (Time p)) (take i ps)))\<rparr>
      else ps ! i)"
proof (induction ps arbitrary: k i)
  case Nil
  then show ?case by simp
next
  case (Cons p ps)
  show ?case
  proof (cases i)
    case 0
    then show ?thesis by simp
  next
    case (Suc j)
    with Cons.prems have "j < length ps" by simp
    from Cons.IH [OF this] Suc show ?thesis by simp
  qed
qed

text \<open>
  Claim C5. With \<open>ack = true\<close>, \<open>SendPoints\<close> returns an error exactly when the
  serialisation of the (stamped) batch fails, or the request to the bus, made with a
  timeout of one second, fails, or the reply body is not empty; in the last case the
  error's message is the reply body. An empty reply body gives nil.
\<close>

theorem C5_SendPoints_ack:
  "((fst (SendPoints now ToPb nc subject points True) = Some e) =
      (ToPb (stamp now 0 points) = Inl e
       \<or> (\<exists>data. ToPb (stamp now 0 points) = Inr data \<and>
             (Request nc subject data 1000000000 = Inl e
              \<or> (\<exists>msg. Request nc subject data 1000000000 = Inr msg \<and> Data msg \<noteq> []
                       \<and> e = Error (Data msg))))))
   \<and> ((fst (SendPoints now ToPb nc subject points True) = None) =
        (\<exists>data msg. ToPb (stamp now 0 points) = Inr data
           \<and> Request nc subject data 1000000000 = Inr msg \<and> Data msg = []))"
  by (auto simp: SendPoints_def Second_def errors_New_def split: sum.splits)

theorem C5_SendPoints_ack_witness:
  "fst (SendPoints ex_now ex_ToPb ex_conn_down ''node.b1.points'' ex_points True)
     = Some (Error ''nats: timeout'')
   \<and> fst (SendPoints ex_now ex_ToPb ex_conn_up ''node.b1.points'' ex_points True) = None"
  using C5_SendPoints_ack [of ex_now ex_ToPb ex_conn_down "''node.b1.points''" ex_points
      "Error ''nats: timeout''"]
    C5_SendPoints_ack [of ex_now ex_ToPb ex_conn_up "''node.b1.points''" ex_points]
  by (simp add: ex_ToPb_def ex_conn_down_def ex_conn_up_def)

text \<open>
  Claim C6. \<open>SendPoints\<close> gives every point whose time is zero a reading of the
  clock taken during the call and leaves every other point as it is; the batch that
  is serialised and put on the bus is the stamped one.
\<close>

theorem C6_SendPoints_stamps:
  "length (stamp now 0 points) = length points
   \<and> (\<forall>i<length points.
         stamp now 0 points ! i =
           (if IsZero (Time (points ! i))
            then (points ! i)\<lparr>Time := now (length (filter (\<lambda>p. IsZero (Time p)) (take i points)))\<rparr>
            else points ! i))
   \<and> (case ToPb (stamp now 0 points) of
         Inl e \<Rightarrow> SendPoints now ToPb nc subject points ack = (Some e, [])
       | Inr data \<Rightarrow>
           snd (SendPoints now ToPb nc subject points ack) =
             [if ack then OpRequest subject data Second else OpPublish subject data])"
proof -
  have "\<forall>i<length points.
         stamp now 0 points ! i =
           (if IsZero (Time (points ! i))
            then (points ! i)\<lparr>Time := now (length (filter (\<lambda>p. IsZero (Time p)) (take i points)))\<rparr>
            else points ! i)"
    using stamp_nth [of _ points now 0] by simp
  moreover have "case ToPb (stamp now 0 points) of
         Inl e \<Rightarrow> SendPoints now ToPb nc subject points ack = (Some e, [])
       | Inr data \<Rightarrow>
           snd (SendPoints now ToPb nc subject points ack) =
             [if ack then OpRequest subject data Second else OpPublish subject data]"
    by (simp add: SendPoints_def split: sum.splits option.splits)
  ultimately show ?thesis by (simp add: stamp_length)
qed

theorem C6_SendPoints_stamps_witness:
  "stamp ex_now 0 ex_points ! 0 = (ex_points ! 0)\<lparr>Time := Instant 1700000000 0\<rparr>
   \<and> stamp ex_now 0 ex_points ! 1 = ex_points ! 1
   \<and> snd (SendPoints ex_now ex_ToPb ex_conn_up ''node.b1.points'' ex_points True)
       = [OpRequest ''node.b1.points'' ''valuedescription'' 1000000000]"
proof -
  note t = C6_SendPoints_stamps [of ex_now ex_points ex_ToPb ex_conn_up "''node.b1.points''" True]
  have l: "length ex_points = 2" by (simp add: ex_points_def)
  from t l have "stamp ex_now 0 ex_points ! 0 =
      (if IsZero (Time (ex_points ! 0)) then (ex_points ! 0)\<lparr>Time := ex_now 0\<rparr> else ex_points ! 0)"
    by simp
  moreover from t l have "stamp ex_now 0 ex_points ! 1 =
      (if IsZero (Time (ex_points ! 1))
       then (ex_points ! 1)\<lparr>Time := ex_now (length (filter (\<lambda>p. IsZero (Time p)) (take 1 ex_points)))\<rparr>
       else ex_points ! 1)"
    by simp
  moreover from t have "case ex_ToPb (stamp ex_now 0 ex_points) of
         Inl e \<Rightarrow> SendPoints ex_now ex_ToPb ex_conn_up ''node.b1.points'' ex_points True = (Some e, [])
       | Inr data \<Rightarrow>
           snd (SendPoints ex_now ex_ToPb ex_conn_up ''node.b1.points'' ex_points True) =
             [if True then OpRequest ''node.b1.points'' data Second
              else OpPublish ''node.b1.points'' data]"
    by simp
  ultimately show ?thesis
    by (simp add: ex_points_def ex_now_def ex_ToPb_def IsZero_def Second_def)
qed

section \<open>The node type of a manager\<close>

lemma NewManager_ok:
  "\<not> isInterface T \<Longrightarrow> typeName T = c # cs \<Longrightarrow>
   NewManager T r = Inr \<lparr>root = r, nodeType = ToLower_1byte c @ cs, clientStates = Map.empty,
                          upSub = False, queries = [], started = []\<rparr>"
  by (simp add: NewManager_def reflect_TypeOf_zero_def)

lemma NewManager_ex: "NewManager (GoType False ''Bus'') ''root'' = Inr ex_m0"
  by (simp add: NewManager_def reflect_TypeOf_zero_def ToLower_1byte_def isASCII_def
      asciiLower_def isUpper_def char_of_eq_iff ex_m0_def)

text \<open>
  Claim C10, amended. \<open>NewManager\<close> panics exactly when the type argument is an
  interface type (the method call on the nil \<open>reflect.Type\<close>) or its reflected name
  is empty (the slice of the first character); for every other type it returns a
  manager.
\<close>

theorem C10_NewManager_panics:
  "(isl (NewManager T r :: panic + 'n Manager) = (isInterface T \<or> typeName T = []))
   \<and> (typeName T = [] \<longrightarrow> \<not> isInterface T \<longrightarrow>
        (NewManager T r :: panic + 'n Manager) = Inl SliceBoundsOutOfRange)
   \<and> (isInterface T \<longrightarrow> (NewManager T r :: panic + 'n Manager) = Inl NilPointerDereference)"
  by (cases "typeName T") (simp_all add: NewManager_def reflect_TypeOf_zero_def)

theorem C10_NewManager_panics_witness:
  "(NewManager (GoType False '''') ''root'' :: panic + string Manager) = Inl SliceBoundsOutOfRange
   \<and> \<not> isl (NewManager (GoType False ''Bus'') ''root'' :: panic + string Manager)"
  using C10_NewManager_panics [of "GoType False ''''" "''root''", where ?'n = string]
    C10_NewManager_panics [of "GoType False ''Bus''" "''root''", where ?'n = string]
  by simp

text \<open>
  The claim as first stated fails for a named interface type: its name \<open>Client\<close> is
  not empty, and \<open>NewManager\<close> panics.
\<close>

theorem C10_counterexample:
  "typeName (GoType True ''Client'') \<noteq> ''''
   \<and> (NewManager (GoType True ''Client'') ''root'' :: panic + string Manager)
       = Inl NilPointerDereference"
  by (simp add: NewManager_def reflect_TypeOf_zero_def)

section \<open>\<open>scan\<close>\<close>

lemma scan_create_dom:
  "dom (clientStates (snd (scan_create w cs found m))) = dom (clientStates m) \<union> mapKey w ` set cs"
  by (induction cs arbitrary: found m) (auto simp: Let_def split: option.splits)

lemma scan_create_found:
  "dom (fst (scan_create w cs found m)) = dom found \<union> mapKey w ` set cs"
  by (induction cs arbitrary: found m) (auto simp: Let_def split: option.splits)

lemma scan_create_keeps:
  "clientStates m key = Some c \<Longrightarrow> clientStates (snd (scan_create w cs found m)) key = Some c"
proof (induction cs arbitrary: found m)
  case Nil
  then show ?case by simp
next
  case (Cons n cs)
  show ?case
  proof (cases "clientStates m (mapKey w n)")
    case None
    with Cons.prems have ne: "key \<noteq> mapKey w n" by auto
    let ?m' = "m\<lparr>clientStates := (clientStates m)(mapKey w n \<mapsto> newClientState n),
                  started := started m @ [mapKey w n]\<rparr>"
    from ne Cons.prems have "clientStates ?m' key = Some c" by simp
    from Cons.IH [OF this] None show ?thesis by (simp add: Let_def)
  next
    case (Some d)
    with Cons.IH [OF Cons.prems] show ?thesis by (simp add: Let_def)
  qed
qed

lemma scan_create_fields:
  "root (snd (scan_create w cs found m)) = root m
   \<and> nodeType (snd (scan_create w cs found m)) = nodeType m
   \<and> queries (snd (scan_create w cs found m)) = queries m
   \<and> upSub (snd (scan_create w cs found m)) = upSub m"
  by (induction cs arbitrary: found m) (auto simp: Let_def split: option.splits)

lemma scan_remove_at:
  "clientStates (scan_remove found m) key =
     (case clientStates m key of None \<Rightarrow> None
      | Some c \<Rightarrow> if key \<in> dom found then Some c else Some (stop c None))"
  by (auto simp: scan_remove_def split: option.splits)

lemma scan_remove_dom: "dom (clientStates (scan_remove found m)) = dom (clientStates m)"
  by (auto simp: scan_remove_at split: option.splits if_splits)

lemma scan_remove_fields:
  "root (scan_remove found m) = root m \<and> nodeType (scan_remove found m) = nodeType m
   \<and> queries (scan_remove found m) = queries m \<and> upSub (scan_remove found m) = upSub m"
  by (simp add: scan_remove_def)

lemma scan_Inl:
  "GetNodeChildren w (length (queries m)) (root m) (nodeType m) False False = Inl e \<Longrightarrow>
   scan w m = (Some e, m\<lparr>queries := queries m @ [(root m, nodeType m, False, False)]\<rparr>)"
  by (simp add: scan_def)

lemma scan_Inr:
  "GetNodeChildren w (length (queries m)) (root m) (nodeType m) False False = Inr cs \<Longrightarrow>
   scan w m = (None, scan_remove
      (fst (scan_create w cs Map.empty (m\<lparr>queries := queries m @ [(root m, nodeType m, False, False)]\<rparr>)))
      (snd (scan_create w cs Map.empty (m\<lparr>queries := queries m @ [(root m, nodeType m, False, False)]\<rparr>))))"
  by (simp add: scan_def Let_def split: prod.splits)

lemma scan_fields:
  "root (snd (scan w m)) = root m \<and> nodeType (snd (scan w m)) = nodeType m
   \<and> queries (snd (scan w m)) = queries m @ [(root m, nodeType m, False, False)]
   \<and> upSub (snd (scan w m)) = upSub m"
proof (cases "GetNodeChildren w (length (queries m)) (root m) (nodeType m) False False")
  case (Inl e)
  then show ?thesis by (simp add: scan_Inl)
next
  case (Inr cs)
  then show ?thesis by (simp add: scan_Inr scan_remove_fields scan_create_fields)
qed

lemma scan_dom:
  "GetNodeChildren w (length (queries m)) (root m) (nodeType m) False False = Inr cs \<Longrightarrow>
   dom (clientStates (snd (scan w m))) = dom (clientStates m) \<union> mapKey w ` set cs"
  by (simp add: scan_Inr scan_remove_dom scan_create_dom)

lemma scan_absent:
  assumes q: "GetNodeChildren w (length (queries m)) (root m) (nodeType m) False False = Inr cs"
    and c: "clientStates m key = Some c" and k: "key \<notin> mapKey w ` set cs"
  shows "clientStates (snd (scan w m)) key = Some (stop c None)"
proof -
  let ?m1 = "m\<lparr>queries := queries m @ [(root m, nodeType m, False, False)]\<rparr>"
  from c have "clientStates ?m1 key = Some c" by simp
  then have "clientStates (snd (scan_create w cs Map.empty ?m1)) key = Some c"
    by (rule scan_create_keeps)
  moreover from k have "key \<notin> dom (fst (scan_create w cs Map.empty ?m1))"
    by (simp add: scan_create_found)
  ultimately show ?thesis using q by (simp add: scan_Inr scan_remove_at)
qed

lemma scan_present:
  assumes q: "GetNodeChildren w (length (queries m)) (root m) (nodeType m) False False = Inr cs"
    and c: "clientStates m key = Some c" and k: "key \<in> mapKey w ` set cs"
  shows "clientStates (snd (scan w m)) key = Some c"
proof -
  let ?m1 = "m\<lparr>queries := queries m @ [(root m, nodeType m, False, False)]\<rparr>"
  from c have "clientStates ?m1 key = Some c" by simp
  then have "clientStates (snd (scan_create w cs Map.empty ?m1)) key = Some c"
    by (rule scan_create_keeps)
  moreover from k have "key \<in> dom (fst (scan_create w cs Map.empty ?m1))"
    by (simp add: scan_create_found)
  ultimately show ?thesis using q by (simp add: scan_Inr scan_remove_at)
qed

lemma scans_funpow:
  "queries (((\<lambda>m. snd (scan w m)) ^^ k) m) = queries m @ replicate k (root m, nodeType m, False, False)
   \<and> root (((\<lambda>m. snd (scan w m)) ^^ k) m) = root m
   \<and> nodeType (((\<lambda>m. snd (scan w m)) ^^ k) m) = nodeType m"
  by (induction k) (simp_all add: scan_fields replicate_append_same)

text \<open>
  Claim C7, amended. For a configuration type that is not an interface type and whose
  name begins with an ASCII character, \<open>NewManager\<close> derives the node type from the
  name by lower-casing that first character and keeping the rest, and every scan of
  the manager queries the children of the root with exactly this node type
  (tombstoned children excluded, not recursive).
\<close>

theorem C7_nodeType_derivation:
  "\<not> isInterface T \<Longrightarrow> typeName T = c # cs \<Longrightarrow> isASCII c \<Longrightarrow>
   \<exists>m. NewManager T r = Inr m \<and> nodeType m = asciiLower c # cs
       \<and> (\<forall>w k. queries (((\<lambda>m. snd (scan w m)) ^^ k) m)
                  = replicate k (r, asciiLower c # cs, False, False))"
  by (simp add: NewManager_ok scans_funpow ToLower_1byte_def)

theorem C7_nodeType_derivation_witness:
  "\<exists>m. (NewManager (GoType False ''Foo'') ''root'' :: panic + string Manager) = Inr m
       \<and> nodeType m = ''foo''
       \<and> queries (snd (scan ex_world (snd (scan ex_world m))))
           = [(''root'', ''foo'', False, False), (''root'', ''foo'', False, False)]"
proof -
  from C7_nodeType_derivation [of "GoType False ''Foo''" "CHR ''F''" "''oo''" "''root''"]
  obtain m :: "string Manager" where m: "NewManager (GoType False ''Foo'') ''root'' = Inr m"
    "nodeType m = asciiLower (CHR ''F'') # ''oo''"
    "\<forall>w k. queries (((\<lambda>m. snd (scan w m)) ^^ k) m)
                  = replicate k (''root'', asciiLower (CHR ''F'') # ''oo'', False, False)"
    by (auto simp: isASCII_def)
  from m(3) have "queries (((\<lambda>m. snd (scan ex_world m)) ^^ 2) m)
                  = replicate 2 (''root'', asciiLower (CHR ''F'') # ''oo'', False, False)"
    by blast
  with m(1,2) show ?thesis
    by (simp add: numeral_2_eq_2 asciiLower_def isUpper_def char_of_eq_iff)
qed

text \<open>
  The claim as first stated fails for a name that begins with a letter outside ASCII:
  for the name with the bytes C3 9C 6E 69 74 (the letter U+00DC, then \<open>nit\<close>), the node
  type is EF BF BD 9C 6E 69 74 and not the name with its first letter lower-cased
  (U+00FC, that is C3 BC, then \<open>nit\<close>). For a named interface type no node type is
  derived at all, since \<open>NewManager\<close> panics.
\<close>

theorem C7_counterexample:
  "\<not> isl (NewManager ex_umlaut ''root'' :: panic + string Manager)
   \<and> nodeType (projr (NewManager ex_umlaut ''root'' :: panic + string Manager))
       = CHR 0xEF # CHR 0xBF # CHR 0xBD # CHR 0x9C # ''nit''
   \<and> nodeType (projr (NewManager ex_umlaut ''root'' :: panic + string Manager))
       \<noteq> CHR 0xC3 # CHR 0xBC # ''nit''
   \<and> isl (NewManager (GoType True ''Client'') ''root'' :: panic + string Manager)"
  by (simp add: ex_umlaut_def NewManager_def reflect_TypeOf_zero_def ToLower_1byte_def isASCII_def)


text \<open>
  Claim C1, amended. When the query of a scan fails, the scan returns the error and
  registers nothing. When it succeeds, the keys registered after the scan are the
  keys registered before it together with the keys of the children the query
  returned: every returned child is registered, once; an instance registered before
  whose key is not among the returned children stays registered (its key is deleted
  later, when the instance has ended) and has been sent one stop signal with a nil
  error, and the others are untouched. In particular, a scan that starts with nothing
  registered ends with exactly the keys of the returned children.
\<close>

theorem C1_scan_registered_keys:
  "case GetNodeChildren w (length (queries m)) (root m) (nodeType m) False False of
     Inl e \<Rightarrow> fst (scan w m) = Some e \<and> clientStates (snd (scan w m)) = clientStates m
   | Inr children \<Rightarrow>
       fst (scan w m) = None
       \<and> dom (clientStates (snd (scan w m))) = dom (clientStates m) \<union> mapKey w ` set children
       \<and> (\<forall>key c. clientStates m key = Some c \<longrightarrow>
            clientStates (snd (scan w m)) key =
              (if key \<in> mapKey w ` set children then Some c else Some (stop c None)))
       \<and> (clientStates m = Map.empty \<longrightarrow>
            dom (clientStates (snd (scan w m))) = mapKey w ` set children)"
proof (cases "GetNodeChildren w (length (queries m)) (root m) (nodeType m) False False")
  case (Inl e)
  then show ?thesis by (simp add: scan_Inl)
next
  case (Inr cs)
  have "fst (scan w m) = None" using Inr by (simp add: scan_Inr)
  moreover have d: "dom (clientStates (snd (scan w m))) = dom (clientStates m) \<union> mapKey w ` set cs"
    using Inr by (rule scan_dom)
  moreover have "\<forall>key c. clientStates m key = Some c \<longrightarrow>
      clientStates (snd (scan w m)) key =
        (if key \<in> mapKey w ` set cs then Some c else Some (stop c None))"
    using scan_absent [OF Inr] scan_present [OF Inr] by simp
  moreover have "clientStates m = Map.empty \<longrightarrow>
      dom (clientStates (snd (scan w m))) = mapKey w ` set cs"
    using d by simp
  ultimately show ?thesis using Inr by simp
qed

theorem C1_scan_registered_keys_witness:
  "fst (scan ex_world ex_m0) = None \<and> dom (clientStates (snd (scan ex_world ex_m0))) = {''root-b1''}"
  using C1_scan_registered_keys [of ex_world ex_m0]
  by (simp add: ex_world_def ex_m0_def)

lemma ex_m1_fields: "root ex_m1 = ''root'' \<and> nodeType ex_m1 = ''bus'' \<and> length (queries ex_m1) = 1"
  by (simp add: ex_m1_def scan_fields) (simp add: ex_m0_def)

lemma ex_m1_dom: "dom (clientStates ex_m1) = {''root-b1''}"
  unfolding ex_m1_def
  by (subst scan_dom [where cs = "[''b1'']"]) (simp_all add: ex_world_def ex_m0_def)

text \<open>
  The claim as first stated fails at the second scan of the example: the query
  returns no child, and the key of \<open>b1\<close> is still registered when the scan is over.
\<close>

theorem C1_counterexample:
  "GetNodeChildren ex_world (length (queries ex_m1)) (root ex_m1) (nodeType ex_m1) False False = Inr []
   \<and> dom (clientStates (snd (scan ex_world ex_m1))) = {''root-b1''}
   \<and> dom (clientStates (snd (scan ex_world ex_m1))) \<noteq> mapKey ex_world ` set []"
proof -
  have q: "GetNodeChildren ex_world (length (queries ex_m1)) (root ex_m1) (nodeType ex_m1) False False = Inr []"
    by (simp add: ex_m1_fields) (simp add: ex_world_def)
  from scan_dom [OF q] have "dom (clientStates (snd (scan ex_world ex_m1))) = {''root-b1''}"
    by (simp add: ex_m1_dom)
  with q show ?thesis by simp
qed

section \<open>The event loop\<close>









lemma ex_loop_fields:
  "\<not> exited ex_loop \<and> \<not> stopping ex_loop \<and> err ex_loop = None
   \<and> root (mgr ex_loop) = ''root'' \<and> nodeType (mgr ex_loop) = ''bus''
   \<and> queries (mgr ex_loop) = [(''root'', ''bus'', False, False)]"
  by (simp add: ex_loop_def scan_fields) (simp add: ex_m0_def)

lemma ex_m0_scan_clients:
  "clientStates (snd (scan ex_world (ex_m0\<lparr>upSub := True\<rparr>)))
     = [''root-b1'' \<mapsto> \<lparr>node = ''b1'', stops = []\<rparr>]"
  by (auto simp: scan_def ex_world_def ex_m0_def scan_remove_def newClientState_def fun_eq_iff
      Let_def)

lemma ex_loop_clients:
  "clientStates (mgr ex_loop) = [''root-b1'' \<mapsto> \<lparr>node = ''b1'', stops = []\<rparr>]"
  by (simp add: ex_loop_def ex_m0_scan_clients)

lemma Start_init_ex: "Start_init ex_Subscribe ex_world ex_m0 = Inr ex_loop"
  by (simp add: Start_init_def ex_Subscribe_def ex_loop_def split: prod.splits)
     (simp add: scan_def ex_world_def ex_m0_def Let_def)

lemma ex_idle_fields: "\<not> exited ex_idle \<and> clientStates (mgr ex_idle) = Map.empty"
  by (simp add: ex_idle_def step_def loop_scan_def ex_loop_fields ex_loop_clients scan_def
      Let_def split: prod.splits)
     (auto simp: ex_world_def scan_remove_def fun_eq_iff)

lemma step_RecvStop_clients:
  "\<not> exited s \<Longrightarrow> clientStates (mgr s) \<noteq> Map.empty \<Longrightarrow>
   step w s RecvStop =
     s\<lparr>stopping := True,
       mgr := (mgr s)\<lparr>upSub := False,
                      clientStates := (\<lambda>key. map_option (\<lambda>c. stop c (err s)) (clientStates (mgr s) key))\<rparr>,
       timerArmed := True\<rparr>"
  by (simp add: step_def Let_def map_option_case)

lemma step_RecvStop_empty:
  "\<not> exited s \<Longrightarrow> clientStates (mgr s) = Map.empty \<Longrightarrow>
   step w s RecvStop = s\<lparr>stopping := True, mgr := (mgr s)\<lparr>upSub := False\<rparr>, exited := True\<rparr>"
  by (simp add: step_def Let_def)

lemma map_option_nonempty:
  "m \<noteq> Map.empty \<Longrightarrow> (\<lambda>key. map_option f (m key)) \<noteq> Map.empty"
  by (auto simp: fun_eq_iff)

lemma step_begin_return:
  "\<not> exited s \<Longrightarrow> \<not> stopping s \<Longrightarrow> calls_scan ev \<Longrightarrow>
   step w s ev = (before_scan s ev)\<lparr>mgr := snd (scan w (mgr (before_scan s ev)))\<rparr>"
  by (cases ev) (simp_all add: step_def loop_scan_def split: prod.splits)





















section \<open>\<open>Stop\<close>\<close>

text \<open>
  Claim C3, amended. Calling \<open>Stop\<close> twice is not idempotent. When no instance is
  registered as the loop takes the first call, the loop is left, and a second call
  blocks forever. When instances are registered, the loop goes on, a second call
  right after the first returns as well, and the loop calls \<open>stop\<close> a second time
  on every registered instance.
\<close>

theorem C3_second_Stop:
  "\<not> exited s \<Longrightarrow>
   Stop w e1 s = Returns (step w s RecvStop)
   \<and> (if clientStates (mgr s) = Map.empty
      then Stop w e2 (step w s RecvStop) = BlocksForever
      else (\<exists>s2. Stop w e2 (step w s RecvStop) = Returns s2
              \<and> (\<forall>key c. clientStates (mgr s) key = Some c \<longrightarrow>
                    (\<exists>x y. clientStates (mgr s2) key = Some (c\<lparr>stops := stops c @ [x, y]\<rparr>)))))"
proof -
  assume run: "\<not> exited s"
  then have first: "Stop w e1 s = Returns (step w s RecvStop)" by (simp add: Stop_def)
  show ?thesis
  proof (cases "clientStates (mgr s) = Map.empty")
    case True
    with run have "exited (step w s RecvStop)" by (simp add: step_RecvStop_empty)
    then have "Stop w e2 (step w s RecvStop) = BlocksForever" by (simp add: Stop_def)
    with first True show ?thesis by simp
  next
    case False
    let ?s1 = "step w s RecvStop"
    have s1: "?s1 = s\<lparr>stopping := True,
       mgr := (mgr s)\<lparr>upSub := False,
                      clientStates := (\<lambda>key. map_option (\<lambda>c. stop c (err s)) (clientStates (mgr s) key))\<rparr>,
       timerArmed := True\<rparr>"
      using run False by (rule step_RecvStop_clients)
    have r1: "\<not> exited ?s1" using run by (simp add: s1)
    have ne1: "clientStates (mgr ?s1) \<noteq> Map.empty"
      using map_option_nonempty [OF False] by (simp add: s1)
    have "Stop w e2 ?s1 = Returns (step w ?s1 RecvStop)" using r1 by (simp add: Stop_def)
    moreover have "\<forall>key c. clientStates (mgr s) key = Some c \<longrightarrow>
        (\<exists>x y. clientStates (mgr (step w ?s1 RecvStop)) key = Some (c\<lparr>stops := stops c @ [x, y]\<rparr>))"
      by (simp add: step_RecvStop_clients [OF r1 ne1]) (simp add: s1 stop_def, blast)
    ultimately show ?thesis using first False by simp
  qed
qed


theorem C3_second_Stop_witness:
  "Stop ex_world None ex_loop = Returns (step ex_world ex_loop RecvStop)
   \<and> (\<exists>s2 x y. Stop ex_world None (step ex_world ex_loop RecvStop) = Returns s2
         \<and> clientStates (mgr s2) ''root-b1'' = Some \<lparr>node = ''b1'', stops = [x, y]\<rparr>)
   \<and> Stop ex_world None ex_idle = Returns (step ex_world ex_idle RecvStop)
   \<and> Stop ex_world None (step ex_world ex_idle RecvStop) = BlocksForever"
proof -
  have ne: "clientStates (mgr ex_loop) \<noteq> Map.empty" by (simp add: ex_loop_clients)
  from C3_second_Stop [of ex_loop ex_world None None] ne
  obtain s2 where a: "Stop ex_world None ex_loop = Returns (step ex_world ex_loop RecvStop)"
    and b: "Stop ex_world None (step ex_world ex_loop RecvStop) = Returns s2"
    and c: "\<forall>key c. clientStates (mgr ex_loop) key = Some c \<longrightarrow>
              (\<exists>x y. clientStates (mgr s2) key = Some (c\<lparr>stops := stops c @ [x, y]\<rparr>))"
    by (auto simp: ex_loop_fields)
  have "clientStates (mgr ex_loop) ''root-b1'' = Some \<lparr>node = ''b1'', stops = []\<rparr>"
    by (simp add: ex_loop_clients)
  with c obtain x y where
    "clientStates (mgr s2) ''root-b1''
       = Some (\<lparr>node = ''b1'', stops = []\<rparr>\<lparr>stops := stops \<lparr>node = ''b1'', stops = []\<rparr> @ [x, y]\<rparr>)"
    by blast
  then have d: "clientStates (mgr s2) ''root-b1'' = Some \<lparr>node = ''b1'', stops = [x, y]\<rparr>"
    by simp
  from C3_second_Stop [of ex_idle ex_world None None]
  have e: "Stop ex_world None ex_idle = Returns (step ex_world ex_idle RecvStop)
      \<and> Stop ex_world None (step ex_world ex_idle RecvStop) = BlocksForever"
    by (simp add: ex_idle_fields)
  from a b d e show ?thesis by blast
qed

text \<open>
  The claim as first stated fails in both ways: on the idle example loop, the second
  call blocks forever; on the example loop with the instance of \<open>b1\<close>, the second call
  sends the instance a second stop signal.
\<close>

theorem C3_counterexample:
  "Stop ex_world None ex_idle = Returns (step ex_world ex_idle RecvStop)
   \<and> Stop ex_world None (step ex_world ex_idle RecvStop) = BlocksForever
   \<and> Stop ex_world None ex_loop = Returns (step ex_world ex_loop RecvStop)
   \<and> Stop ex_world None (step ex_world ex_loop RecvStop)
       = Returns (step ex_world (step ex_world ex_loop RecvStop) RecvStop)
   \<and> map_option stops
        (clientStates (mgr (step ex_world (step ex_world ex_loop RecvStop) RecvStop)) ''root-b1'')
       = Some [None, None]"
proof -
  have a: "Stop ex_world None ex_idle = Returns (step ex_world ex_idle RecvStop)"
    by (simp add: Stop_def ex_idle_fields)
  have "exited (step ex_world ex_idle RecvStop)"
    by (simp add: step_RecvStop_empty ex_idle_fields)
  then have b: "Stop ex_world None (step ex_world ex_idle RecvStop) = BlocksForever"
    by (simp add: Stop_def)
  have c: "Stop ex_world None ex_loop = Returns (step ex_world ex_loop RecvStop)"
    by (simp add: Stop_def ex_loop_fields)
  have ne: "clientStates (mgr ex_loop) \<noteq> Map.empty"
    by (simp add: ex_loop_clients)
  have r: "\<not> exited ex_loop" by (simp add: ex_loop_fields)
  note s1 = step_RecvStop_clients [OF r ne, of ex_world]
  have r1: "\<not> exited (step ex_world ex_loop RecvStop)" by (simp add: s1 r)
  have ne1: "clientStates (mgr (step ex_world ex_loop RecvStop)) \<noteq> Map.empty"
    using map_option_nonempty [OF ne] by (simp add: s1)
  have d: "Stop ex_world None (step ex_world ex_loop RecvStop)
       = Returns (step ex_world (step ex_world ex_loop RecvStop) RecvStop)"
    using r1 by (simp add: Stop_def)
  have e: "map_option stops
        (clientStates (mgr (step ex_world (step ex_world ex_loop RecvStop) RecvStop)) ''root-b1'')
       = Some [None, None]"
    by (simp add: step_RecvStop_clients [OF r1 ne1])
       (simp add: s1 ex_loop_clients ex_loop_fields stop_def)
  from a b c d e show ?thesis by simp
qed

text \<open>
  Claim C4. \<open>Stop(err)\<close> should hand \<open>err\<close> to every running instance. It does not:
  for the example manager, started with one instance, \<open>Stop\<close> called with the error
  \<open>boom\<close> sends the instance a stop signal with a nil error, the value that the first
  scan left in the variable \<open>err\<close> of \<open>Start\<close>.
\<close>

theorem C4_Stop_drops_error:
  "Start_init ex_Subscribe ex_world ex_m0 = Inr ex_loop
   \<and> Stop ex_world (Some (Error ''boom'')) ex_loop = Returns (step ex_world ex_loop RecvStop)
   \<and> clientStates (mgr (step ex_world ex_loop RecvStop)) ''root-b1''
       = Some \<lparr>node = ''b1'', stops = [None]\<rparr>"
proof -
  have ne: "clientStates (mgr ex_loop) \<noteq> Map.empty"
    by (simp add: ex_loop_clients)
  have r: "\<not> exited ex_loop" by (simp add: ex_loop_fields)
  have "clientStates (mgr (step ex_world ex_loop RecvStop)) ''root-b1''
       = Some \<lparr>node = ''b1'', stops = [None]\<rparr>"
    by (simp add: step_RecvStop_clients [OF r ne]) (simp add: ex_loop_clients ex_loop_fields stop_def)
  then show ?thesis using r by (simp add: Start_init_ex Stop_def)
qed

end
